theory Spec2Isabelle
  imports Main
begin

section \<open>Python values and exceptions\<close>

text \<open>
  The module \<^verbatim>\<open>src/spegel/llm.py\<close> binds two vendor SDKs behind one streaming
  operation. Every exception the module can meet is a value of \<open>error\<close>; a computation
  that may raise returns \<open>error + 'a\<close> with \<open>Inl\<close> for the exception.
\<close>

datatype error =
    NotImplementedError
  | RuntimeError string
  | AttributeError
  | TypeError
  | IndexError
  | NameError string
  | ValueError string
  | VendorError string

text \<open>\<^verbatim>\<open>xs[0]\<close> on a value that may be \<^verbatim>\<open>None\<close> or a list.\<close>

definition item0 :: "'a list option \<Rightarrow> error + 'a" where
  "item0 xs = (case xs of
       None \<Rightarrow> Inl TypeError
     | Some [] \<Rightarrow> Inl IndexError
     | Some (x # _) \<Rightarrow> Inr x)"

text \<open>Truth value of an optional string: \<^verbatim>\<open>None\<close> and \<^verbatim>\<open>""\<close> are false.\<close>

definition truthy :: "string option \<Rightarrow> bool" where
  "truthy s = (case s of None \<Rightarrow> False | Some t \<Rightarrow> t \<noteq> [])"

text \<open>
  \<^verbatim>\<open>msg % args\<close> for the only conversion the module uses, \<^verbatim>\<open>%s\<close>. As in
  \<^verbatim>\<open>LogRecord.getMessage\<close>, a message without arguments is left as it is.
\<close>

fun percent_format :: "string \<Rightarrow> string list \<Rightarrow> string" where
  "percent_format [] args = []"
| "percent_format [c] args = [c]"
| "percent_format (c # d # r) args =
     (if c = CHR ''%'' \<and> d = CHR ''s'' \<and> args \<noteq> []
      then hd args @ percent_format r (tl args)
      else c # percent_format (d # r) args)"

section \<open>The interaction logger\<close>

text \<open>
  \<^verbatim>\<open>logging.getLogger("spegel.llm")\<close>: its own level and its own handlers. Its
  ancestors are taken in their default configuration (root level \<^verbatim>\<open>WARNING\<close>, no
  handlers), so a level of \<^verbatim>\<open>NOTSET\<close> falls back to \<^verbatim>\<open>WARNING\<close>. The
  timestamp of a written line is not modelled.
\<close>

definition NOTSET :: int where "NOTSET = 0"
definition INFO :: int where "INFO = 20"
definition WARNING :: int where "WARNING = 30"
definition CRITICAL :: int where "CRITICAL = 50"

datatype handler = StreamHandler (formatter: "string option")

record py_logger =
  level :: int
  handlers :: "handler list"

text \<open>The module-level logger right after import: level \<^verbatim>\<open>CRITICAL + 1\<close>.\<close>

definition logger :: py_logger where
  "logger = \<lparr>level = CRITICAL + 1, handlers = []\<rparr>"

definition log_format :: string where
  "log_format = ''%(asctime)s - %(name)s - %(levelname)s - %(message)s''"

definition enable_llm_logging :: "int option \<Rightarrow> py_logger \<Rightarrow> py_logger" where
  "enable_llm_logging lvl lg =
     (let lg1 = lg\<lparr>level := (case lvl of None \<Rightarrow> INFO | Some l \<Rightarrow> l)\<rparr>
      in if handlers lg1 = []
         then lg1\<lparr>handlers := handlers lg1 @ [StreamHandler (Some log_format)]\<rparr>
         else lg1)"

definition getEffectiveLevel :: "py_logger \<Rightarrow> int" where
  "getEffectiveLevel lg = (if level lg \<noteq> NOTSET then level lg else WARNING)"

definition isEnabledFor :: "py_logger \<Rightarrow> int \<Rightarrow> bool" where
  "isEnabledFor lg l = (getEffectiveLevel lg \<le> l)"

section \<open>Runs of a stream call\<close>

text \<open>
  A fully consumed call of \<^verbatim>\<open>stream\<close> is recorded as the sequence of its observable
  events, in program order: the request handed to the vendor SDK, the records the logger
  accepts, each chunk taken from the vendor's stream, each fragment yielded to the
  caller, and what \<^verbatim>\<open>print\<close> writes. A run also keeps the final value of the
  local list \<^verbatim>\<open>collected\<close> and the exception that ended the generator, if any.
  The type \<open>'y\<close> is that of the values an adapter forwards: strings on the Gemini
  adapter, whatever the vendor puts into \<^verbatim>\<open>delta.content\<close> on the Mistral adapter.
\<close>

datatype ('r, 'c, 'y) event =
    Submit 'r
  | Log string "string list"
  | Recv 'c
  | Yield 'y
  | PrintReceived 'c
  | PrintContent 'y
  | PrintError error

record ('r, 'c, 'y) run =
  trace :: "('r, 'c, 'y) event list"
  collected :: "'y list"
  raised :: "error option"

text \<open>\<^verbatim>\<open>logger.info(msg, *args)\<close>: a record is made only if \<^verbatim>\<open>INFO\<close> is enabled.\<close>

definition info :: "py_logger \<Rightarrow> string \<Rightarrow> string list \<Rightarrow> ('r, 'c, 'y) event list" where
  "info lg msg args = (if isEnabledFor lg INFO then [Log msg args] else [])"

text \<open>What each handler of the logger writes for an accepted record.\<close>

definition callHandlers :: "py_logger \<Rightarrow> string \<Rightarrow> string list \<Rightarrow> (handler \<times> string) list" where
  "callHandlers lg msg args = map (\<lambda>h. (h, percent_format msg args)) (handlers lg)"

fun yielded :: "('r, 'c, 'y) event list \<Rightarrow> 'y list" where
  "yielded [] = []"
| "yielded (Yield t # es) = t # yielded es"
| "yielded (_ # es) = yielded es"

fun received :: "('r, 'c, 'y) event list \<Rightarrow> 'c list" where
  "received [] = []"
| "received (Recv c # es) = c # received es"
| "received (_ # es) = received es"

fun submitted :: "('r, 'c, 'y) event list \<Rightarrow> 'r list" where
  "submitted [] = []"
| "submitted (Submit r # es) = r # submitted es"
| "submitted (_ # es) = submitted es"

fun logged :: "('r, 'c, 'y) event list \<Rightarrow> (string \<times> string list) list" where
  "logged [] = []"
| "logged (Log m a # es) = (m, a) # logged es"
| "logged (_ # es) = logged es"

text \<open>The strings carried by the records of one kind, e.g. \<^verbatim>\<open>"LLM Response: %s"\<close>.\<close>

definition logged_as :: "string \<Rightarrow> ('r, 'c, 'y) event list \<Rightarrow> string list" where
  "logged_as m es = concat (map snd (filter (\<lambda>r. fst r = m) (logged es)))"

text \<open>
  The answer of a vendor SDK to a request: opening the stream fails, or it delivers
  finitely many chunks and then ends, normally or with an exception.
\<close>

type_synonym ('r, 'c) vendor = "'r \<Rightarrow> error + ('c list \<times> error option)"

section \<open>Generation requests\<close>

datatype cfg_value =
    CfgFloat string
  | CfgInt int
  | CfgStr string
  | CfgObj "(string \<times> cfg_value) list"

type_synonym generation_config = "(string \<times> cfg_value) list"

text \<open>The default \<^verbatim>\<open>types.GenerateContentConfig\<close>; the float literal is kept as written.\<close>

definition default_generation_config :: generation_config where
  "default_generation_config =
     [(''temperature'', CfgFloat ''0.2''),
      (''max_output_tokens'', CfgInt 8192),
      (''response_mime_type'', CfgStr ''text/plain''),
      (''thinking_config'', CfgObj [(''thinking_budget'', CfgInt 0)])]"

text \<open>\<^verbatim>\<open>f"{prompt}\n\n{content}" if content else prompt\<close>\<close>

definition user_content :: "string \<Rightarrow> string \<Rightarrow> string" where
  "user_content prompt content =
     (if content \<noteq> [] then prompt @ [CHR 0x0A, CHR 0x0A] @ content else prompt)"

section \<open>The clients\<close>

text \<open>
  What the two adapter classes keep: the key given to the vendor's client object and,
  for Gemini, the model name. \<open>llm_client\<close> is the closed set of concrete
  \<^verbatim>\<open>LLMClient\<close> subclasses.
\<close>

record gemini_client =
  gemini_api_key :: string
  model_name :: string

record mistral_client =
  mistral_api_key :: string

datatype llm_client =
    GeminiClient gemini_client
  | MistralClient mistral_client

definition default_model_name :: string where
  "default_model_name = ''gemini-2.5-flash-lite-preview-06-17''"

text \<open>
  The vendors' own client constructors, \<^verbatim>\<open>genai.Client(api_key=...)\<close> and
  \<^verbatim>\<open>Mistral(api_key=...)\<close>, are not part of the module: each is a parameter that,
  for a key, either builds the client (\<open>None\<close>) or raises (\<open>Some\<close> the exception),
  as it does in the process at hand. The module \<^verbatim>\<open>genai\<close> is \<open>None\<close> when its
  import failed, and otherwise gives its constructor.
\<close>

type_synonym vendor_constructor = "string \<Rightarrow> error option"

text \<open>\<^verbatim>\<open>GeminiClient.__init__\<close>, lines 56 to 60.\<close>

definition GeminiClient_init ::
  "vendor_constructor option \<Rightarrow> string \<Rightarrow> string option \<Rightarrow> error + llm_client" where
  "GeminiClient_init genai key name =
     (case genai of
        None \<Rightarrow> Inl (RuntimeError ''google-genai not installed but GeminiClient requested'')
      | Some Client \<Rightarrow>
          (case Client key of
             Some e \<Rightarrow> Inl e
           | None \<Rightarrow>
               Inr (GeminiClient
                 \<lparr>gemini_api_key = key,
                  model_name = (case name of None \<Rightarrow> default_model_name | Some n \<Rightarrow> n)\<rparr>)))"

text \<open>\<^verbatim>\<open>MistralClient.__init__\<close>, lines 106 to 108.\<close>

definition MistralClient_init :: "vendor_constructor \<Rightarrow> string \<Rightarrow> error + llm_client" where
  "MistralClient_init Mistral key =
     (case Mistral key of
        Some e \<Rightarrow> Inl e
      | None \<Rightarrow> Inr (MistralClient \<lparr>mistral_api_key = key\<rparr>))"

text \<open>
  \<^verbatim>\<open>LLMClient.stream\<close>, the abstract operation: its first step raises, nothing is
  yielded.
\<close>

definition LLMClient_stream :: "string \<Rightarrow> string \<Rightarrow> ('r, 'c, 'y) run" where
  "LLMClient_stream prompt content =
     \<lparr>trace = [], collected = [], raised = Some NotImplementedError\<rparr>"

subsection \<open>Adapter A: Gemini\<close>

datatype part = Part (part_text: "string option")
datatype content = Content (parts: "part list option")
datatype candidate = Candidate (candidate_content: "content option")
datatype gemini_chunk = GenerateContentResponse (candidates: "candidate list option")

record gemini_request =
  req_model :: string
  req_contents :: string
  req_config :: generation_config

text \<open>\<^verbatim>\<open>chunk.candidates[0].content.parts[0].text\<close>\<close>

definition gemini_text :: "gemini_chunk \<Rightarrow> error + string option" where
  "gemini_text chunk =
     (case item0 (candidates chunk) of
        Inl e \<Rightarrow> Inl e
      | Inr cand \<Rightarrow>
          (case candidate_content cand of
             None \<Rightarrow> Inl AttributeError
           | Some ct \<Rightarrow>
               (case item0 (parts ct) of
                  Inl e \<Rightarrow> Inl e
                | Inr p \<Rightarrow> Inr (part_text p))))"

text \<open>The body of the \<^verbatim>\<open>async for\<close> loop, lines 89 to 96.\<close>

definition gemini_body ::
  "(gemini_request, gemini_chunk, string) run \<Rightarrow> gemini_chunk \<Rightarrow>
   (gemini_request, gemini_chunk, string) run" where
  "gemini_body st chunk =
     (let st1 = st\<lparr>trace := trace st @ [Recv chunk]\<rparr>
      in case gemini_text chunk of
           Inl e \<Rightarrow> st1
         | Inr text \<Rightarrow>
             if truthy text
             then st1\<lparr>collected := collected st1 @ [the text],
                      trace := trace st1 @ [Yield (the text)]\<rparr>
             else st1)"

text \<open>
  \<^verbatim>\<open>GeminiClient.stream\<close>. Line 78 only creates the coroutine of the vendor call;
  it runs at the \<^verbatim>\<open>await\<close> of line 89, after the prompt was logged, and an
  exception of the vendor leaves the generator there or, later, between two chunks.
\<close>

definition gemini_stream ::
  "gemini_client \<Rightarrow> (gemini_request, gemini_chunk) vendor \<Rightarrow> py_logger \<Rightarrow>
   string \<Rightarrow> string \<Rightarrow> generation_config option \<Rightarrow>
   (gemini_request, gemini_chunk, string) run" where
  "gemini_stream self api lg prompt content generation_config =
     (let config = (case generation_config of
                      None \<Rightarrow> default_generation_config
                    | Some g \<Rightarrow> g);
          uc = user_content prompt content;
          req = \<lparr>req_model = model_name self, req_contents = uc, req_config = config\<rparr>;
          st0 = \<lparr>trace = info lg ''LLM Prompt: %s'' [uc] @ [Submit req],
                 collected = [], raised = None\<rparr>
      in case api req of
           Inl e \<Rightarrow> st0\<lparr>raised := Some e\<rparr>
         | Inr (chunks, fin) \<Rightarrow>
             (let st = foldl gemini_body st0 chunks
              in case fin of
                   Some e \<Rightarrow> st\<lparr>raised := Some e\<rparr>
                 | None \<Rightarrow>
                     if collected st \<noteq> []
                     then st\<lparr>trace := trace st @
                               info lg ''LLM Response: %s'' [concat (collected st)]\<rparr>
                     else st))"

subsection \<open>Adapter B: Mistral\<close>

text \<open>
  What the vendor may put into \<^verbatim>\<open>delta.content\<close> besides \<^verbatim>\<open>None\<close>: a string,
  the SDK's \<^verbatim>\<open>Unset\<close> marker of an absent field, or a list of content chunks.
\<close>

datatype delta_value = Text string | Unset | ContentList "string list"

datatype delta_message = DeltaMessage (delta_content: "delta_value option")
datatype stream_choice = CompletionResponseStreamChoice (delta: "delta_message option")
datatype completion_chunk = CompletionChunk (choices: "stream_choice list option")
datatype mistral_chunk = CompletionEvent (data: "completion_chunk option")

record mistral_request =
  m_model :: string
  m_messages :: "(string \<times> string) list list"
  m_stream :: bool

text \<open>\<^verbatim>\<open>chunk.data.choices[0].delta.content\<close>\<close>

definition mistral_content :: "mistral_chunk \<Rightarrow> error + delta_value option" where
  "mistral_content chunk =
     (case data chunk of
        None \<Rightarrow> Inl AttributeError
      | Some d \<Rightarrow>
          (case item0 (choices d) of
             Inl e \<Rightarrow> Inl e
           | Inr ch \<Rightarrow>
               (case delta ch of
                  None \<Rightarrow> Inl AttributeError
                | Some dm \<Rightarrow> Inr (delta_content dm))))"

text \<open>
  \<^verbatim>\<open>"".join(collected)\<close>: a \<^verbatim>\<open>TypeError\<close> as soon as an item is not a string.
\<close>

fun str_join :: "delta_value list \<Rightarrow> error + string" where
  "str_join [] = Inr []"
| "str_join (Text s # vs) = (case str_join vs of Inl e \<Rightarrow> Inl e | Inr t \<Rightarrow> Inr (s @ t))"
| "str_join (v # vs) = Inl TypeError"

text \<open>
  The body of the \<^verbatim>\<open>async for\<close> loop, lines 126 to 138. The guard of line 129 is
  \<^verbatim>\<open>is not None\<close>, so every other content is appended and yielded as it is. The
  \<^verbatim>\<open>else\<close> branch names the undefined variable \<^verbatim>\<open>event\<close>: evaluating the
  arguments of its \<^verbatim>\<open>print\<close> raises \<^verbatim>\<open>NameError\<close>, which the handler of the
  same \<^verbatim>\<open>try\<close> catches.
\<close>

definition mistral_body ::
  "(mistral_request, mistral_chunk, delta_value) run \<Rightarrow> mistral_chunk \<Rightarrow>
   (mistral_request, mistral_chunk, delta_value) run" where
  "mistral_body st chunk =
     (let st1 = st\<lparr>trace := trace st @ [Recv chunk, PrintReceived chunk]\<rparr>
      in case mistral_content chunk of
           Inl e \<Rightarrow> st1\<lparr>trace := trace st1 @ [PrintError e]\<rparr>
         | Inr None \<Rightarrow> st1\<lparr>trace := trace st1 @ [PrintError (NameError ''event'')]\<rparr>
         | Inr (Some text) \<Rightarrow>
             st1\<lparr>collected := collected st1 @ [text],
                 trace := trace st1 @ [PrintContent text, Yield text]\<rparr>)"

text \<open>
  \<^verbatim>\<open>MistralClient.stream\<close>. The vendor call is awaited at line 120, before anything
  is logged; \<^verbatim>\<open>generation_config\<close> is accepted and not read. The two joins of
  lines 141 and 142 stand outside the \<^verbatim>\<open>try\<close>: the first is evaluated, whatever
  the logger's level, when something was collected, and its \<^verbatim>\<open>TypeError\<close> ends the
  generator.
\<close>

definition mistral_stream ::
  "mistral_client \<Rightarrow> (mistral_request, mistral_chunk) vendor \<Rightarrow> py_logger \<Rightarrow>
   string \<Rightarrow> string \<Rightarrow> generation_config option \<Rightarrow>
   (mistral_request, mistral_chunk, delta_value) run" where
  "mistral_stream self api lg prompt content generation_config =
     (let model = ''mistral-medium-latest'';
          uc = user_content prompt content;
          req = \<lparr>m_model = model,
                 m_messages = [[(''role'', ''user''), (''content'', uc)]],
                 m_stream = True\<rparr>
      in case api req of
           Inl e \<Rightarrow> \<lparr>trace = [Submit req], collected = [], raised = Some e\<rparr>
         | Inr (chunks, fin) \<Rightarrow>
             (let st0 = \<lparr>trace = [Submit req] @ info lg ''LLM data has run'' [],
                         collected = [], raised = None\<rparr>;
                  st = foldl mistral_body st0 chunks
              in case fin of
                   Some e \<Rightarrow> st\<lparr>raised := Some e\<rparr>
                 | None \<Rightarrow>
                     (case (if collected st \<noteq> []
                            then (case str_join (collected st) of
                                    Inl e \<Rightarrow> Inl e
                                  | Inr s \<Rightarrow> Inr (info lg ''LLM Response: %s'' [s]))
                            else Inr []) of
                        Inl e \<Rightarrow> st\<lparr>raised := Some e\<rparr>
                      | Inr records \<Rightarrow>
                          (case str_join (collected st) of
                             Inl e \<Rightarrow> st\<lparr>trace := trace st @ records, raised := Some e\<rparr>
                           | Inr s \<Rightarrow>
                               st\<lparr>trace := trace st @ records @ [Yield (Text s)]\<rparr>))))"

section \<open>Backend selection\<close>

text \<open>
  \<^verbatim>\<open>get_default_client\<close>; the environment is what \<^verbatim>\<open>os.getenv\<close> reads, \<open>genai\<close>
  the primary client library if it was imported, \<open>Mistral\<close> the secondary vendor's
  constructor. An exception of a constructor is not caught.
\<close>

definition get_default_client ::
  "(string \<Rightarrow> string option) \<Rightarrow> vendor_constructor option \<Rightarrow> vendor_constructor \<Rightarrow>
   error + (llm_client option \<times> bool)" where
  "get_default_client environ genai Mistral =
     (let gemini_api_key = environ ''GEMINI_API_KEY'';
          mistral_api_key = environ ''MISTRAL_API_KEY''
      in if truthy gemini_api_key \<and> genai \<noteq> None then
           (case GeminiClient_init genai (the gemini_api_key) None of
              Inl e \<Rightarrow> Inl e
            | Inr c \<Rightarrow> Inr (Some c, True))
         else if truthy mistral_api_key then
           (case MistralClient_init Mistral (the mistral_api_key) of
              Inl e \<Rightarrow> Inl e
            | Inr c \<Rightarrow> Inr (Some c, True))
         else Inr (None, False))"

section \<open>Fragments and events of one chunk\<close>

text \<open>
  What one pass through each loop body forwards to the caller: the value the guard of
  line 92 (Gemini: a non-empty string) or of line 129 (Mistral: anything but
  \<^verbatim>\<open>None\<close>) lets through, and nothing for every other chunk.
\<close>

definition gemini_fragment :: "gemini_chunk \<Rightarrow> string list" where
  "gemini_fragment chunk =
     (case gemini_text chunk of
        Inr (Some t) \<Rightarrow> if t \<noteq> [] then [t] else []
      | _ \<Rightarrow> [])"

definition mistral_fragment :: "mistral_chunk \<Rightarrow> delta_value list" where
  "mistral_fragment chunk =
     (case mistral_content chunk of
        Inr (Some v) \<Rightarrow> [v]
      | _ \<Rightarrow> [])"

text \<open>The strings among the collected values.\<close>

fun strings :: "delta_value list \<Rightarrow> string list" where
  "strings [] = []"
| "strings (Text s # vs) = s # strings vs"
| "strings (v # vs) = strings vs"

definition gemini_events ::
  "gemini_chunk \<Rightarrow> (gemini_request, gemini_chunk, string) event list" where
  "gemini_events chunk = Recv chunk # map Yield (gemini_fragment chunk)"

definition mistral_events ::
  "mistral_chunk \<Rightarrow> (mistral_request, mistral_chunk, delta_value) event list" where
  "mistral_events chunk =
     [Recv chunk, PrintReceived chunk] @
     (case mistral_content chunk of
        Inl e \<Rightarrow> [PrintError e]
      | Inr None \<Rightarrow> [PrintError (NameError ''event'')]
      | Inr (Some v) \<Rightarrow> [PrintContent v, Yield v])"

text \<open>The requests the two adapters build.\<close>

definition gemini_request_of ::
  "gemini_client \<Rightarrow> string \<Rightarrow> string \<Rightarrow> generation_config option \<Rightarrow> gemini_request" where
  "gemini_request_of self prompt content generation_config =
     \<lparr>req_model = model_name self,
      req_contents = user_content prompt content,
      req_config = (case generation_config of
                      None \<Rightarrow> default_generation_config
                    | Some g \<Rightarrow> g)\<rparr>"

definition mistral_request_of :: "string \<Rightarrow> string \<Rightarrow> mistral_request" where
  "mistral_request_of prompt content =
     \<lparr>m_model = ''mistral-medium-latest'',
      m_messages = [[(''role'', ''user''), (''content'', user_content prompt content)]],
      m_stream = True\<rparr>"

text \<open>Sample chunks of both vendors, used to run the adapters on concrete streams.\<close>

definition gemini_chunk_of :: "string \<Rightarrow> gemini_chunk" where
  "gemini_chunk_of t =
     GenerateContentResponse (Some [Candidate (Some (Content (Some [Part (Some t)])))])"

definition gemini_malformed :: gemini_chunk where
  "gemini_malformed = GenerateContentResponse (Some [])"

definition mistral_chunk_with :: "delta_value option \<Rightarrow> mistral_chunk" where
  "mistral_chunk_with v =
     CompletionEvent (Some (CompletionChunk (Some
       [CompletionResponseStreamChoice (Some (DeltaMessage v))])))"

definition mistral_chunk_of :: "string \<Rightarrow> mistral_chunk" where
  "mistral_chunk_of t = mistral_chunk_with (Some (Text t))"

definition mistral_malformed :: mistral_chunk where
  "mistral_malformed = CompletionEvent None"

definition sample_gemini :: gemini_client where
  "sample_gemini = \<lparr>gemini_api_key = ''k'', model_name = default_model_name\<rparr>"

definition sample_mistral :: mistral_client where
  "sample_mistral = \<lparr>mistral_api_key = ''k''\<rparr>"

text \<open>Two sample streams: \<^verbatim>\<open>"Hel"\<close> and \<^verbatim>\<open>"lo"\<close> among three malformed chunks.\<close>

definition gemini_sample_chunks :: "gemini_chunk list" where
  "gemini_sample_chunks =
     [gemini_malformed, gemini_chunk_of ''Hel'', gemini_malformed, gemini_chunk_of ''lo'',
      gemini_malformed]"

definition mistral_sample_chunks :: "mistral_chunk list" where
  "mistral_sample_chunks =
     [mistral_malformed, mistral_chunk_of ''Hel'', mistral_malformed, mistral_chunk_of ''lo'',
      mistral_malformed]"

text \<open>A simulated vendor: the stream opens, delivers the given chunks and ends normally.\<close>

definition simulated :: "'c list \<Rightarrow> ('r, 'c) vendor" where
  "simulated chunks req = Inr (chunks, None)"

text \<open>Vendor constructors that build a client for every key, or raise for every key.\<close>

definition accepting :: vendor_constructor where
  "accepting key = None"

definition refusing :: "error \<Rightarrow> vendor_constructor" where
  "refusing e key = Some e"

section \<open>Reading a trace\<close>

lemma yielded_append [simp]: "yielded (a @ b) = yielded a @ yielded b"
  by (induction a rule: yielded.induct) simp_all
lemma received_append [simp]: "received (a @ b) = received a @ received b"
  by (induction a rule: received.induct) simp_all
lemma submitted_append [simp]: "submitted (a @ b) = submitted a @ submitted b"
  by (induction a rule: submitted.induct) simp_all
lemma logged_append [simp]: "logged (a @ b) = logged a @ logged b"
  by (induction a rule: logged.induct) simp_all

lemma logged_as_append [simp]: "logged_as m (a @ b) = logged_as m a @ logged_as m b"
  by (simp add: logged_as_def)

lemma info_projections [simp]:
  "yielded (info lg m a) = []" "received (info lg m a) = []" "submitted (info lg m a) = []"
  "logged (info lg m a) = (if isEnabledFor lg INFO then [(m, a)] else [])"
  by (simp_all add: info_def)

text \<open>What the console handler writes for a record, the timestamp apart.\<close>

lemma callHandlers_enabled:
  "callHandlers (enable_llm_logging lvl logger) ''LLM Prompt: %s'' [s] =
     [(StreamHandler (Some log_format), ''LLM Prompt: '' @ s)]"
  "callHandlers (enable_llm_logging lvl logger) ''LLM Response: %s'' [s] =
     [(StreamHandler (Some log_format), ''LLM Response: '' @ s)]"
  by (simp_all add: callHandlers_def enable_llm_logging_def logger_def)

lemma gemini_body_events:
  "gemini_body st c =
     st\<lparr>trace := trace st @ gemini_events c, collected := collected st @ gemini_fragment c\<rparr>"
  by (cases "gemini_text c")
     (auto simp: gemini_body_def gemini_events_def gemini_fragment_def truthy_def Let_def
           split: option.splits)

lemma mistral_body_events:
  "mistral_body st c =
     st\<lparr>trace := trace st @ mistral_events c, collected := collected st @ mistral_fragment c\<rparr>"
  by (cases "mistral_content c")
     (auto simp: mistral_body_def mistral_events_def mistral_fragment_def Let_def
           split: option.splits)

lemma foldl_gemini_body:
  "foldl gemini_body st cs =
     st\<lparr>trace := trace st @ concat (map gemini_events cs),
        collected := collected st @ concat (map gemini_fragment cs)\<rparr>"
  by (induction cs arbitrary: st) (simp_all add: gemini_body_events)

lemma foldl_mistral_body:
  "foldl mistral_body st cs =
     st\<lparr>trace := trace st @ concat (map mistral_events cs),
        collected := collected st @ concat (map mistral_fragment cs)\<rparr>"
  by (induction cs arbitrary: st) (simp_all add: mistral_body_events)

lemma gemini_events_projections [simp]:
  "yielded (gemini_events c) = gemini_fragment c"
  "received (gemini_events c) = [c]"
  "submitted (gemini_events c) = []"
  "logged (gemini_events c) = []"
  by (cases "gemini_fragment c"; cases "tl (gemini_fragment c)"; simp add: gemini_events_def gemini_fragment_def split: sum.splits option.splits if_splits)+

lemma mistral_events_projections [simp]:
  "yielded (mistral_events c) = mistral_fragment c"
  "received (mistral_events c) = [c]"
  "submitted (mistral_events c) = []"
  "logged (mistral_events c) = []"
  by (simp_all add: mistral_events_def mistral_fragment_def split: sum.splits option.splits)

lemma concat_events_projections [simp]:
  "yielded (concat (map gemini_events cs)) = concat (map gemini_fragment cs)"
  "received (concat (map gemini_events cs)) = cs"
  "submitted (concat (map gemini_events cs)) = []"
  "logged (concat (map gemini_events cs)) = []"
  "yielded (concat (map mistral_events ms)) = concat (map mistral_fragment ms)"
  "received (concat (map mistral_events ms)) = ms"
  "submitted (concat (map mistral_events ms)) = []"
  "logged (concat (map mistral_events ms)) = []"
  by (induction cs, simp_all) (induction ms, simp_all)+

section \<open>Joining the collected values\<close>

lemma str_join_error: "str_join vs = Inl e \<Longrightarrow> e = TypeError"
proof (induction vs arbitrary: e rule: str_join.induct)
  case (2 s vs)
  then show ?case by (auto split: sum.splits)
qed simp_all

lemma str_join_strings:
  "str_join vs = Inr s \<Longrightarrow> vs = map Text (strings vs) \<and> s = concat (strings vs)"
proof (induction vs arbitrary: s rule: str_join.induct)
  case (2 t vs)
  then show ?case by (auto split: sum.splits)
qed simp_all

lemma str_join_Text: "str_join (map Text ts) = Inr (concat ts)"
  by (induction ts) simp_all

lemma strings_Text [simp]: "strings (map Text ts) = ts"
  by (induction ts) simp_all

section \<open>The run of each adapter in closed form\<close>

lemma gemini_stream_opened:
  assumes "api (gemini_request_of self P C g) = Inr (cs, fin)"
  shows "gemini_stream self api lg P C g =
     \<lparr>trace = info lg ''LLM Prompt: %s'' [user_content P C] @
              [Submit (gemini_request_of self P C g)] @
              concat (map gemini_events cs) @
              (if fin = None \<and> concat (map gemini_fragment cs) \<noteq> []
               then info lg ''LLM Response: %s'' [concat (concat (map gemini_fragment cs))]
               else []),
      collected = concat (map gemini_fragment cs),
      raised = fin\<rparr>"
  using assms
  by (cases fin) (simp_all add: gemini_stream_def gemini_request_of_def Let_def foldl_gemini_body)

lemma gemini_stream_failed:
  assumes "api (gemini_request_of self P C g) = Inl e"
  shows "gemini_stream self api lg P C g =
     \<lparr>trace = info lg ''LLM Prompt: %s'' [user_content P C] @
              [Submit (gemini_request_of self P C g)],
      collected = [], raised = Some e\<rparr>"
  using assms
  by (simp add: gemini_stream_def gemini_request_of_def Let_def)

lemma mistral_stream_opened:
  assumes "api (mistral_request_of P C) = Inr (cs, fin)"
  shows "mistral_stream self api lg P C g =
     \<lparr>trace = [Submit (mistral_request_of P C)] @ info lg ''LLM data has run'' [] @
              concat (map mistral_events cs) @
              (case str_join (concat (map mistral_fragment cs)) of
                 Inl e \<Rightarrow> []
               | Inr s \<Rightarrow>
                   if fin = None
                   then (if concat (map mistral_fragment cs) \<noteq> []
                         then info lg ''LLM Response: %s'' [s] else []) @ [Yield (Text s)]
                   else []),
      collected = concat (map mistral_fragment cs),
      raised = (case fin of
                  Some e \<Rightarrow> Some e
                | None \<Rightarrow>
                    (case str_join (concat (map mistral_fragment cs)) of
                       Inl e \<Rightarrow> Some e
                     | Inr s \<Rightarrow> None))\<rparr>"
proof (cases fin)
  case None
  show ?thesis
  proof (cases "str_join (concat (map mistral_fragment cs))")
    case (Inl e)
    have "concat (map mistral_fragment cs) \<noteq> []"
    proof
      assume "concat (map mistral_fragment cs) = []"
      then have "str_join (concat (map mistral_fragment cs)) = Inr []"
        by (simp only: str_join.simps)
      with Inl show False by simp
    qed
    with Inl None assms show ?thesis
      by (simp add: mistral_stream_def mistral_request_of_def Let_def foldl_mistral_body)
  next
    case (Inr s)
    with None assms show ?thesis
      by (simp add: mistral_stream_def mistral_request_of_def Let_def foldl_mistral_body)
  qed
next
  case (Some e)
  with assms show ?thesis
    by (cases "str_join (concat (map mistral_fragment cs))")
       (simp_all add: mistral_stream_def mistral_request_of_def Let_def foldl_mistral_body)
qed

lemma mistral_stream_failed:
  assumes "api (mistral_request_of P C) = Inl e"
  shows "mistral_stream self api lg P C g =
     \<lparr>trace = [Submit (mistral_request_of P C)], collected = [], raised = Some e\<rparr>"
  using assms
  by (simp add: mistral_stream_def mistral_request_of_def Let_def)

lemma vendor_cases:
  obtains (failed) e where "(v :: error + ('c list \<times> error option)) = Inl e"
        | (opened) cs fin where "v = Inr (cs, fin)"
  by (cases v) auto

lemmas run_defs =
  gemini_stream_def gemini_body_def gemini_text_def gemini_chunk_of_def gemini_malformed_def
  mistral_stream_def mistral_body_def mistral_content_def mistral_chunk_of_def
  mistral_chunk_with_def mistral_malformed_def sample_gemini_def sample_mistral_def default_model_name_def
  gemini_request_of_def mistral_request_of_def default_generation_config_def
  item0_def truthy_def user_content_def info_def logged_as_def simulated_def Let_def

lemmas logger_defs =
  isEnabledFor_def getEffectiveLevel_def enable_llm_logging_def logger_def
  INFO_def CRITICAL_def NOTSET_def WARNING_def

section \<open>Accumulated fragments and the logged response\<close>

text \<open>
  Claim C1. For a call of \<^verbatim>\<open>stream\<close> on either adapter, whatever the vendor's stream
  delivers: the strings logged under \<^verbatim>\<open>"LLM Response: %s"\<close> are exactly one, the
  concatenation of the accumulated fragments, when the logger accepts \<^verbatim>\<open>INFO\<close>, the
  generator ended normally and something was accumulated, and none otherwise. On the
  Gemini adapter the accumulated fragments are the yielded ones, in yield order; on the
  Mistral adapter the yielded ones are the accumulated ones followed, at a normal end,
  by the trailing full response, and at a normal end every accumulated value is a
  string.
\<close>

theorem response_log_is_concatenation:
  "(let r = gemini_stream self api lg P C g
    in logged_as ''LLM Response: %s'' (trace r) =
         (if isEnabledFor lg INFO \<and> raised r = None \<and> collected r \<noteq> []
          then [concat (collected r)] else []) \<and>
       yielded (trace r) = collected r) \<and>
   (let r = mistral_stream self' api' lg P C g
    in logged_as ''LLM Response: %s'' (trace r) =
         (if isEnabledFor lg INFO \<and> raised r = None \<and> collected r \<noteq> []
          then [concat (strings (collected r))] else []) \<and>
       yielded (trace r) =
         collected r @
         (if raised r = None then [Text (concat (strings (collected r)))] else []) \<and>
       (raised r = None \<longrightarrow> collected r = map Text (strings (collected r))))"
proof -
  have A: "(let r = gemini_stream self api lg P C g
    in logged_as ''LLM Response: %s'' (trace r) =
         (if isEnabledFor lg INFO \<and> raised r = None \<and> collected r \<noteq> []
          then [concat (collected r)] else []) \<and>
       yielded (trace r) = collected r)"
  proof (cases "api (gemini_request_of self P C g)" rule: vendor_cases)
    case (failed e)
    show ?thesis
      by (simp add: gemini_stream_failed [where api = api, OF failed] logged_as_def)
  next
    case (opened cs fin)
    show ?thesis
      by (auto simp: gemini_stream_opened [where api = api, OF opened] logged_as_def)
  qed
  have B: "(let r = mistral_stream self' api' lg P C g
    in logged_as ''LLM Response: %s'' (trace r) =
         (if isEnabledFor lg INFO \<and> raised r = None \<and> collected r \<noteq> []
          then [concat (strings (collected r))] else []) \<and>
       yielded (trace r) =
         collected r @
         (if raised r = None then [Text (concat (strings (collected r)))] else []) \<and>
       (raised r = None \<longrightarrow> collected r = map Text (strings (collected r))))"
  proof (cases "api' (mistral_request_of P C)" rule: vendor_cases)
    case (failed e)
    show ?thesis
      by (simp add: mistral_stream_failed [where api = api', OF failed] logged_as_def)
  next
    case (opened cs fin)
    let ?frs = "concat (map mistral_fragment cs)"
    show ?thesis
    proof (cases "str_join ?frs")
      case (Inl e)
      then show ?thesis
        by (cases fin)
           (simp_all add: mistral_stream_opened [where api = api', OF opened] logged_as_def)
    next
      case (Inr s)
      from str_join_strings [OF Inr]
      have typed: "?frs = map Text (strings ?frs)" and s: "s = concat (strings ?frs)"
        by simp_all
      show ?thesis
      proof (cases fin)
        case None
        have tr: "trace (mistral_stream self' api' lg P C g) =
                  [Submit (mistral_request_of P C)] @ info lg ''LLM data has run'' [] @
                  concat (map mistral_events cs) @
                  (if ?frs \<noteq> [] then info lg ''LLM Response: %s'' [s] else []) @
                  [Yield (Text s)]"
          and co: "collected (mistral_stream self' api' lg P C g) = ?frs"
          and ra: "raised (mistral_stream self' api' lg P C g) = None"
          by (simp_all add: mistral_stream_opened [where api = api', OF opened] Inr None)
        have lo: "logged_as ''LLM Response: %s'' (trace (mistral_stream self' api' lg P C g)) =
                  (if isEnabledFor lg INFO \<and> ?frs \<noteq> [] then [s] else [])"
          unfolding tr by (auto simp: logged_as_def)
        have yi: "yielded (trace (mistral_stream self' api' lg P C g)) = ?frs @ [Text s]"
          unfolding tr by simp
        show ?thesis
          unfolding Let_def lo yi co ra using typed s by auto
      next
        case (Some e)
        then show ?thesis
          by (simp add: mistral_stream_opened [where api = api', OF opened] Inr logged_as_def)
      qed
    qed
  qed
  from A B show ?thesis by blast
qed

text \<open>
  Witness for C1: the chunks \<^verbatim>\<open>"Hel"\<close>, \<^verbatim>\<open>"lo"\<close> with logging enabled; the
  response record carries \<^verbatim>\<open>"Hello"\<close> on both adapters.
\<close>

theorem response_log_is_concatenation_witness:
  "logged_as ''LLM Response: %s''
     (trace (gemini_stream sample_gemini
        (simulated [gemini_chunk_of ''Hel'', gemini_chunk_of ''lo''])
        (enable_llm_logging None logger) ''Say hello'' [] None)) = [''Hello''] \<and>
   yielded
     (trace (gemini_stream sample_gemini
        (simulated [gemini_chunk_of ''Hel'', gemini_chunk_of ''lo''])
        (enable_llm_logging None logger) ''Say hello'' [] None)) = [''Hel'', ''lo''] \<and>
   logged_as ''LLM Response: %s''
     (trace (mistral_stream sample_mistral
        (simulated [mistral_chunk_of ''Hel'', mistral_chunk_of ''lo''])
        (enable_llm_logging None logger) ''Say hello'' [] None)) = [''Hello''] \<and>
   yielded
     (trace (mistral_stream sample_mistral
        (simulated [mistral_chunk_of ''Hel'', mistral_chunk_of ''lo''])
        (enable_llm_logging None logger) ''Say hello'' [] None)) =
     [Text ''Hel'', Text ''lo'', Text ''Hello''] \<and>
   raised
     (mistral_stream sample_mistral
        (simulated [mistral_chunk_of ''Hel'', mistral_chunk_of ''lo''])
        (enable_llm_logging None logger) ''Say hello'' [] None) = None"
  using response_log_is_concatenation
    [of sample_gemini "simulated [gemini_chunk_of ''Hel'', gemini_chunk_of ''lo'']"
        "enable_llm_logging None logger" "''Say hello''" "[]" None
        sample_mistral "simulated [mistral_chunk_of ''Hel'', mistral_chunk_of ''lo'']"]
  by (simp add: run_defs logger_defs)

section \<open>The request each adapter submits\<close>

lemma submitted_gemini:
  "submitted (trace (gemini_stream self api lg P C g)) = [gemini_request_of self P C g]"
proof (cases "api (gemini_request_of self P C g)" rule: vendor_cases)
  case (failed e)
  show ?thesis by (simp add: gemini_stream_failed [where api = api, OF failed])
next
  case (opened cs fin)
  show ?thesis by (simp add: gemini_stream_opened [where api = api, OF opened])
qed

lemma submitted_mistral:
  "submitted (trace (mistral_stream self api lg P C g)) = [mistral_request_of P C]"
proof (cases "api (mistral_request_of P C)" rule: vendor_cases)
  case (failed e)
  show ?thesis by (simp add: mistral_stream_failed [where api = api, OF failed])
next
  case (opened cs fin)
  show ?thesis
    by (simp add: mistral_stream_opened [where api = api, OF opened] split: sum.splits)
qed

section \<open>The composed request\<close>

text \<open>
  Claim C2. For every prompt \<open>P\<close> (non-empty or not) and content \<open>C\<close>, each adapter
  submits exactly one request to its vendor. With empty content its text is \<open>P\<close>
  itself, with no separator; with non-empty content it is \<open>P\<close>, two newline
  characters, then \<open>C\<close>.
\<close>

theorem composed_request:
  "(C = [] \<longrightarrow>
      map req_contents (submitted (trace (gemini_stream self api lg P C g))) = [P] \<and>
      map m_messages (submitted (trace (mistral_stream self' api' lg P C g))) =
        [[[(''role'', ''user''), (''content'', P)]]]) \<and>
   (C \<noteq> [] \<longrightarrow>
      map req_contents (submitted (trace (gemini_stream self api lg P C g))) =
        [P @ [CHR 0x0A, CHR 0x0A] @ C] \<and>
      map m_messages (submitted (trace (mistral_stream self' api' lg P C g))) =
        [[[(''role'', ''user''), (''content'', P @ [CHR 0x0A, CHR 0x0A] @ C)]]])"
  by (simp add: submitted_gemini submitted_mistral gemini_request_of_def mistral_request_of_def
        user_content_def)

text \<open>Witness for C2: the prompt \<^verbatim>\<open>"Summarise"\<close> with empty content and with \<^verbatim>\<open>"page"\<close>.\<close>

theorem composed_request_witness:
  "map req_contents (submitted (trace (gemini_stream sample_gemini (simulated [])
       logger ''Summarise'' [] None))) = [''Summarise''] \<and>
   map m_messages (submitted (trace (mistral_stream sample_mistral (simulated [])
       logger ''Summarise'' [] None))) = [[[(''role'', ''user''), (''content'', ''Summarise'')]]] \<and>
   map req_contents (submitted (trace (gemini_stream sample_gemini (simulated [])
       logger ''Summarise'' ''page'' None))) =
     [''Summarise'' @ [CHR 0x0A, CHR 0x0A] @ ''page''] \<and>
   map m_messages (submitted (trace (mistral_stream sample_mistral (simulated [])
       logger ''Summarise'' ''page'' None))) =
     [[[(''role'', ''user''), (''content'', ''Summarise'' @ [CHR 0x0A, CHR 0x0A] @ ''page'')]]]"
  using composed_request [of "[]" sample_gemini "simulated []" logger "''Summarise''" None
          sample_mistral "simulated []"]
        composed_request [of "''page''" sample_gemini "simulated []" logger "''Summarise''" None
          sample_mistral "simulated []"]
  by simp

section \<open>The unused generation configuration of the Mistral adapter\<close>

text \<open>
  Claim C9. Two Mistral calls that differ only in \<^verbatim>\<open>generation_config\<close> have the
  same run: the same request is submitted, with the fixed model id
  \<^verbatim>\<open>mistral-medium-latest\<close>, and the same fragments are yielded.
\<close>

theorem mistral_ignores_generation_config:
  "mistral_stream self api lg P C g1 = mistral_stream self api lg P C g2 \<and>
   submitted (trace (mistral_stream self api lg P C g1)) =
     submitted (trace (mistral_stream self api lg P C g2)) \<and>
   yielded (trace (mistral_stream self api lg P C g1)) =
     yielded (trace (mistral_stream self api lg P C g2)) \<and>
   map m_model (submitted (trace (mistral_stream self api lg P C g1))) =
     [''mistral-medium-latest'']"
  by (simp add: submitted_mistral mistral_request_of_def) (simp add: mistral_stream_def)

section \<open>Enabling the logger\<close>

lemma enable_keeps_handlers:
  "handlers lg \<noteq> [] \<Longrightarrow> handlers (enable_llm_logging l lg) = handlers lg"
  by (simp add: enable_llm_logging_def Let_def)

lemma enable_attaches:
  "handlers lg = [] \<Longrightarrow> handlers (enable_llm_logging l lg) = [StreamHandler (Some log_format)]"
  by (simp add: enable_llm_logging_def Let_def)

lemma enable_repeated_keeps_handlers:
  "handlers lg \<noteq> [] \<Longrightarrow>
   handlers (foldl (\<lambda>lg l. enable_llm_logging l lg) lg levels) = handlers lg"
  by (induction levels arbitrary: lg) (simp_all add: enable_keeps_handlers)

text \<open>
  Claim C8. Starting from the logger as the module creates it, any non-empty sequence of
  calls of \<^verbatim>\<open>enable_llm_logging\<close>, at whatever levels, leaves exactly one handler
  attached: the console handler with the timestamped format. On any logger, a second
  call attaches nothing more than the first.
\<close>

theorem enable_llm_logging_attaches_once:
  "(levels \<noteq> [] \<longrightarrow>
      handlers (foldl (\<lambda>lg l. enable_llm_logging l lg) logger levels) =
        [StreamHandler (Some log_format)]) \<and>
   handlers (enable_llm_logging l2 (enable_llm_logging l1 lg)) =
     handlers (enable_llm_logging l1 lg)"
proof -
  have "handlers (foldl (\<lambda>lg l. enable_llm_logging l lg) logger levels) =
        [StreamHandler (Some log_format)]" if "levels \<noteq> []"
  proof -
    from that obtain l ls where levels: "levels = l # ls" by (cases levels) auto
    have first: "handlers (enable_llm_logging l logger) = [StreamHandler (Some log_format)]"
      by (simp add: enable_attaches logger_def)
    then show ?thesis
      by (simp add: levels enable_repeated_keeps_handlers)
  qed
  moreover have "handlers (enable_llm_logging l2 (enable_llm_logging l1 lg)) =
     handlers (enable_llm_logging l1 lg)"
    by (cases "handlers lg = []") (simp_all add: enable_attaches enable_keeps_handlers)
  ultimately show ?thesis by blast
qed

text \<open>Witness for C8: three calls, at the default level, at \<^verbatim>\<open>DEBUG\<close>, at the default level.\<close>

theorem enable_llm_logging_attaches_once_witness:
  "handlers (foldl (\<lambda>lg l. enable_llm_logging l lg) logger [None, Some 10, None]) =
     [StreamHandler (Some log_format)] \<and>
   length (handlers (foldl (\<lambda>lg l. enable_llm_logging l lg) logger [None, Some 10, None])) = 1"
  using enable_llm_logging_attaches_once [of "[None, Some 10, None]" None None logger]
  by simp

section \<open>Log records of a call\<close>

text \<open>
  With a logger that does not accept \<^verbatim>\<open>INFO\<close>, as the module-level logger before
  \<^verbatim>\<open>enable_llm_logging\<close>, neither adapter logs anything. With one that does, the
  Gemini adapter logs the composed content once under \<^verbatim>\<open>"LLM Prompt: %s"\<close>; the
  Mistral adapter never logs under that message.
\<close>

lemma module_logger_disabled: "\<not> isEnabledFor logger INFO"
  by (simp add: logger_defs)

lemma silent_when_disabled:
  assumes "\<not> isEnabledFor lg INFO"
  shows "logged (trace (gemini_stream self api lg P C g)) = []"
    and "logged (trace (mistral_stream self' api' lg P C g)) = []"
proof -
  show "logged (trace (gemini_stream self api lg P C g)) = []"
  proof (cases "api (gemini_request_of self P C g)" rule: vendor_cases)
    case (failed e)
    show ?thesis using assms by (simp add: gemini_stream_failed [where api = api, OF failed])
  next
    case (opened cs fin)
    show ?thesis using assms by (simp add: gemini_stream_opened [where api = api, OF opened])
  qed
  show "logged (trace (mistral_stream self' api' lg P C g)) = []"
  proof (cases "api' (mistral_request_of P C)" rule: vendor_cases)
    case (failed e)
    show ?thesis using assms by (simp add: mistral_stream_failed [where api = api', OF failed])
  next
    case (opened cs fin)
    show ?thesis using assms
      by (simp add: mistral_stream_opened [where api = api', OF opened] split: sum.splits)
  qed
qed

lemma gemini_logs_prompt_once:
  assumes "isEnabledFor lg INFO"
  shows "logged_as ''LLM Prompt: %s'' (trace (gemini_stream self api lg P C g)) =
         [user_content P C]"
proof (cases "api (gemini_request_of self P C g)" rule: vendor_cases)
  case (failed e)
  show ?thesis using assms
    by (simp add: gemini_stream_failed [where api = api, OF failed] logged_as_def)
next
  case (opened cs fin)
  show ?thesis using assms
    by (simp add: gemini_stream_opened [where api = api, OF opened] logged_as_def)
qed

lemma mistral_never_logs_prompt:
  "logged_as ''LLM Prompt: %s'' (trace (mistral_stream self api lg P C g)) = []"
proof (cases "api (mistral_request_of P C)" rule: vendor_cases)
  case (failed e)
  show ?thesis
    by (simp add: mistral_stream_failed [where api = api, OF failed] logged_as_def)
next
  case (opened cs fin)
  show ?thesis
    by (simp add: mistral_stream_opened [where api = api, OF opened] logged_as_def
          split: sum.splits)
qed

text \<open>
  Claim C6, at the input where the code departs from it: logging enabled at the default
  level, the prompt \<^verbatim>\<open>"hi"\<close>, no content, one chunk with the text \<^verbatim>\<open>"x"\<close>. The
  Mistral adapter logs \<^verbatim>\<open>"LLM data has run"\<close> and the response, and no
  \<^verbatim>\<open>"LLM Prompt"\<close> record; the Gemini adapter, on the same input, logs the prompt and
  the response.
\<close>

theorem mistral_logs_no_prompt:
  "logged (trace (mistral_stream sample_mistral (simulated [mistral_chunk_of ''x''])
      (enable_llm_logging None logger) ''hi'' [] None)) =
     [(''LLM data has run'', []), (''LLM Response: %s'', [''x''])] \<and>
   logged_as ''LLM Prompt: %s''
     (trace (mistral_stream sample_mistral (simulated [mistral_chunk_of ''x''])
        (enable_llm_logging None logger) ''hi'' [] None)) = [] \<and>
   logged (trace (gemini_stream sample_gemini (simulated [gemini_chunk_of ''x''])
      (enable_llm_logging None logger) ''hi'' [] None)) =
     [(''LLM Prompt: %s'', [''hi'']), (''LLM Response: %s'', [''x''])]"
  by (simp add: run_defs logger_defs)

section \<open>The trailing full response of the Mistral adapter\<close>

lemma mistral_fragment_content:
  "mistral_content m = Inr (Some v) \<Longrightarrow> mistral_fragment m = [v]"
  "mistral_content m = Inr None \<Longrightarrow> mistral_fragment m = []"
  "mistral_content m = Inl e \<Longrightarrow> mistral_fragment m = []"
  by (simp_all add: mistral_fragment_def)

lemma string_fragments:
  assumes "\<forall>m \<in> set chunks. \<forall>v. mistral_content m = Inr (Some v) \<longrightarrow> (\<exists>t. v = Text t)"
  shows "\<exists>frags. concat (map mistral_fragment chunks) = map Text frags"
  using assms
proof (induction chunks)
  case Nil
  show ?case by simp
next
  case (Cons m chunks)
  then obtain frags where rest: "concat (map mistral_fragment chunks) = map Text frags"
    by auto
  show ?case
  proof (cases "mistral_fragment m")
    case Nil
    with rest show ?thesis by auto
  next
    case (Cons v vs)
    then have "mistral_content m = Inr (Some v)" and "vs = []"
      by (auto simp: mistral_fragment_def split: sum.splits option.splits)
    with Cons.prems obtain t where "v = Text t" by auto
    with Cons \<open>vs = []\<close> rest have "concat (map mistral_fragment (m # chunks)) = map Text (t # frags)"
      by simp
    then show ?thesis by blast
  qed
qed

text \<open>
  Claim C3, amended. When the vendor's stream of a Mistral call ends normally and every
  content its chunks carry is \<^verbatim>\<open>None\<close> or a string, the generator ends normally, and
  the last event of the run is one more yield, after every chunk has been received; its
  value is the concatenation of all fragments yielded before it.
\<close>

theorem mistral_trailing_full_response:
  assumes "api (mistral_request_of P C) = Inr (chunks, None)"
    and "\<forall>m \<in> set chunks. \<forall>v. mistral_content m = Inr (Some v) \<longrightarrow> (\<exists>t. v = Text t)"
  shows "\<exists>frags.
           raised (mistral_stream self api lg P C g) = None \<and>
           received (trace (mistral_stream self api lg P C g)) = chunks \<and>
           yielded (trace (mistral_stream self api lg P C g)) =
             map Text frags @ [Text (concat frags)] \<and>
           last (trace (mistral_stream self api lg P C g)) = Yield (Text (concat frags)) \<and>
           received (butlast (trace (mistral_stream self api lg P C g))) = chunks \<and>
           yielded (butlast (trace (mistral_stream self api lg P C g))) = map Text frags \<and>
           collected (mistral_stream self api lg P C g) = map Text frags"
proof -
  from string_fragments [OF assms(2)]
  obtain frags where frs: "concat (map mistral_fragment chunks) = map Text frags" ..
  have joined: "str_join (concat (map mistral_fragment chunks)) = Inr (concat frags)"
    by (simp add: frs str_join_Text)
  have "raised (mistral_stream self api lg P C g) = None \<and>
        received (trace (mistral_stream self api lg P C g)) = chunks \<and>
        yielded (trace (mistral_stream self api lg P C g)) =
          map Text frags @ [Text (concat frags)] \<and>
        last (trace (mistral_stream self api lg P C g)) = Yield (Text (concat frags)) \<and>
        received (butlast (trace (mistral_stream self api lg P C g))) = chunks \<and>
        yielded (butlast (trace (mistral_stream self api lg P C g))) = map Text frags \<and>
        collected (mistral_stream self api lg P C g) = map Text frags"
    by (simp add: mistral_stream_opened [where api = api, OF assms(1)] joined butlast_append)
       (simp add: frs)
  then show ?thesis ..
qed

text \<open>Witness for the amended C3: the chunks \<^verbatim>\<open>"Hel"\<close>, a malformed one, \<^verbatim>\<open>"lo"\<close>.\<close>

theorem mistral_trailing_full_response_witness:
  "\<exists>frags.
     raised (mistral_stream sample_mistral
        (simulated [mistral_chunk_of ''Hel'', mistral_malformed, mistral_chunk_of ''lo''])
        logger ''Say hello'' [] None) = None \<and>
     yielded (trace (mistral_stream sample_mistral
        (simulated [mistral_chunk_of ''Hel'', mistral_malformed, mistral_chunk_of ''lo''])
        logger ''Say hello'' [] None)) = map Text frags @ [Text (concat frags)] \<and>
     last (trace (mistral_stream sample_mistral
        (simulated [mistral_chunk_of ''Hel'', mistral_malformed, mistral_chunk_of ''lo''])
        logger ''Say hello'' [] None)) = Yield (Text (concat frags)) \<and>
     collected (mistral_stream sample_mistral
        (simulated [mistral_chunk_of ''Hel'', mistral_malformed, mistral_chunk_of ''lo''])
        logger ''Say hello'' [] None) = [Text ''Hel'', Text ''lo'']"
proof -
  have opened: "simulated [mistral_chunk_of ''Hel'', mistral_malformed, mistral_chunk_of ''lo'']
                  (mistral_request_of ''Say hello'' []) =
                Inr ([mistral_chunk_of ''Hel'', mistral_malformed, mistral_chunk_of ''lo''], None)"
    by (simp add: simulated_def)
  have typed: "\<forall>m \<in> set [mistral_chunk_of ''Hel'', mistral_malformed, mistral_chunk_of ''lo''].
                 \<forall>v. mistral_content m = Inr (Some v) \<longrightarrow> (\<exists>t. v = Text t)"
    by (simp add: mistral_content_def mistral_chunk_of_def mistral_chunk_with_def
          mistral_malformed_def item0_def)
  have frags: "mistral_fragment (mistral_chunk_of ''Hel'') = [Text ''Hel'']"
    "mistral_fragment mistral_malformed = []"
    "mistral_fragment (mistral_chunk_of ''lo'') = [Text ''lo'']"
    by (simp_all add: mistral_fragment_def mistral_content_def mistral_chunk_of_def
          mistral_chunk_with_def mistral_malformed_def item0_def)
  from mistral_trailing_full_response
         [where api = "simulated [mistral_chunk_of ''Hel'', mistral_malformed, mistral_chunk_of ''lo'']"
            and self = sample_mistral and lg = logger and g = None, OF opened typed]
  obtain fs where
    fs: "raised (mistral_stream sample_mistral
        (simulated [mistral_chunk_of ''Hel'', mistral_malformed, mistral_chunk_of ''lo''])
        logger ''Say hello'' [] None) = None"
      "yielded (trace (mistral_stream sample_mistral
        (simulated [mistral_chunk_of ''Hel'', mistral_malformed, mistral_chunk_of ''lo''])
        logger ''Say hello'' [] None)) = map Text fs @ [Text (concat fs)]"
      "last (trace (mistral_stream sample_mistral
        (simulated [mistral_chunk_of ''Hel'', mistral_malformed, mistral_chunk_of ''lo''])
        logger ''Say hello'' [] None)) = Yield (Text (concat fs))"
      "collected (mistral_stream sample_mistral
        (simulated [mistral_chunk_of ''Hel'', mistral_malformed, mistral_chunk_of ''lo''])
        logger ''Say hello'' [] None) = map Text fs"
    by blast
  have "collected (mistral_stream sample_mistral
        (simulated [mistral_chunk_of ''Hel'', mistral_malformed, mistral_chunk_of ''lo''])
        logger ''Say hello'' [] None) = [Text ''Hel'', Text ''lo'']"
    by (simp add: mistral_stream_opened [where api = "simulated
          [mistral_chunk_of ''Hel'', mistral_malformed, mistral_chunk_of ''lo'']", OF opened] frags)
  with fs show ?thesis by blast
qed

text \<open>
  Counterexample to C3 as stated: the only chunk carries the SDK's \<^verbatim>\<open>Unset\<close> marker
  as its content. It passes the guard of line 129 and is yielded; the join of line 141
  then raises \<^verbatim>\<open>TypeError\<close>, and no final fragment follows.
\<close>

theorem unset_content_counterexample:
  "mistral_content (mistral_chunk_with (Some Unset)) = Inr (Some Unset) \<and>
   yielded (trace (mistral_stream sample_mistral (simulated [mistral_chunk_with (Some Unset)])
      logger ''p'' [] None)) = [Unset] \<and>
   last (trace (mistral_stream sample_mistral (simulated [mistral_chunk_with (Some Unset)])
      logger ''p'' [] None)) = Yield Unset \<and>
   raised (mistral_stream sample_mistral (simulated [mistral_chunk_with (Some Unset)])
      logger ''p'' [] None) = Some TypeError"
  by (simp add: run_defs logger_defs)

section \<open>The availability flag\<close>

text \<open>
  Claim C10. Whenever \<^verbatim>\<open>get_default_client\<close> returns, whatever the environment, the
  library and the vendors' constructors: its flag is true exactly when its client is not
  \<^verbatim>\<open>None\<close>.
\<close>

theorem availability_flag_matches_client:
  assumes "get_default_client environ genai Mistral = Inr (client, available)"
  shows "available = (client \<noteq> None)"
  using assms
  by (auto simp: get_default_client_def Let_def split: if_splits sum.splits)

text \<open>
  Witness for C10: only the secondary key is given and the constructor builds the client;
  the helper returns a Mistral client and true.
\<close>

theorem availability_flag_matches_client_witness:
  "get_default_client (map_of [(''MISTRAL_API_KEY'', ''m'')]) (Some accepting) accepting =
     Inr (Some (MistralClient \<lparr>mistral_api_key = ''m''\<rparr>), True) \<and>
   True = (Some (MistralClient \<lparr>mistral_api_key = ''m''\<rparr>) \<noteq> None)"
proof -
  have returned:
    "get_default_client (map_of [(''MISTRAL_API_KEY'', ''m'')]) (Some accepting) accepting =
       Inr (Some (MistralClient \<lparr>mistral_api_key = ''m''\<rparr>), True)"
    by (simp add: get_default_client_def MistralClient_init_def truthy_def accepting_def Let_def)
  from availability_flag_matches_client [OF returned] returned show ?thesis by simp
qed

section \<open>The order of backend selection\<close>

text \<open>
  Claim C4, amended. A key counts when the variable is set to a non-empty value. If
  \<^verbatim>\<open>GEMINI_API_KEY\<close> is set to a non-empty value and the primary client library was
  imported, the helper constructs a Gemini client with that key and returns it with
  true, or raises what the vendor's constructor raises; else, if \<^verbatim>\<open>MISTRAL_API_KEY\<close>
  is set to a non-empty value, it constructs a Mistral client with that key and returns
  it with true, or raises what the vendor's constructor raises; else it returns
  \<^verbatim>\<open>(None, False)\<close> without raising.
\<close>

theorem selection_order:
  "(environ ''GEMINI_API_KEY'' = Some kg \<and> kg \<noteq> [] \<and> genai = Some Client \<longrightarrow>
      get_default_client environ genai Mistral =
        (case Client kg of
           Some e \<Rightarrow> Inl e
         | None \<Rightarrow>
             Inr (Some (GeminiClient
                    \<lparr>gemini_api_key = kg, model_name = default_model_name\<rparr>), True))) \<and>
   (\<not> (truthy (environ ''GEMINI_API_KEY'') \<and> genai \<noteq> None) \<and>
    environ ''MISTRAL_API_KEY'' = Some km \<and> km \<noteq> [] \<longrightarrow>
      get_default_client environ genai Mistral =
        (case Mistral km of
           Some e \<Rightarrow> Inl e
         | None \<Rightarrow> Inr (Some (MistralClient \<lparr>mistral_api_key = km\<rparr>), True))) \<and>
   (\<not> (truthy (environ ''GEMINI_API_KEY'') \<and> genai \<noteq> None) \<and>
    \<not> truthy (environ ''MISTRAL_API_KEY'') \<longrightarrow>
      get_default_client environ genai Mistral = Inr (None, False))"
  by (auto simp: get_default_client_def GeminiClient_init_def MistralClient_init_def
        truthy_def Let_def split: option.splits)

text \<open>
  Witness for the amended C4: both keys given with and without the primary library,
  only the secondary key given, and no key at all, with constructors that build their
  clients; then the secondary key with a constructor that raises.
\<close>

theorem selection_order_witness:
  "get_default_client (map_of [(''GEMINI_API_KEY'', ''g''), (''MISTRAL_API_KEY'', ''m'')])
     (Some accepting) accepting =
     Inr (Some (GeminiClient \<lparr>gemini_api_key = ''g'', model_name = default_model_name\<rparr>), True) \<and>
   get_default_client (map_of [(''GEMINI_API_KEY'', ''g''), (''MISTRAL_API_KEY'', ''m'')])
     None accepting =
     Inr (Some (MistralClient \<lparr>mistral_api_key = ''m''\<rparr>), True) \<and>
   get_default_client (map_of [(''MISTRAL_API_KEY'', ''m'')]) (Some accepting) accepting =
     Inr (Some (MistralClient \<lparr>mistral_api_key = ''m''\<rparr>), True) \<and>
   get_default_client (map_of []) (Some accepting) accepting = Inr (None, False) \<and>
   get_default_client (map_of [(''MISTRAL_API_KEY'', ''m'')]) (Some accepting)
     (refusing (ValueError ''proxy'')) = Inl (ValueError ''proxy'')"
  using selection_order [of "map_of [(''GEMINI_API_KEY'', ''g''), (''MISTRAL_API_KEY'', ''m'')]"
          "''g''" "Some accepting" accepting accepting "''m''"]
        selection_order [of "map_of [(''GEMINI_API_KEY'', ''g''), (''MISTRAL_API_KEY'', ''m'')]"
          "''g''" None accepting accepting "''m''"]
        selection_order [of "map_of [(''MISTRAL_API_KEY'', ''m'')]"
          "''g''" "Some accepting" accepting accepting "''m''"]
        selection_order [of "map_of []" "''g''" "Some accepting" accepting accepting "''m''"]
        selection_order [of "map_of [(''MISTRAL_API_KEY'', ''m'')]"
          "''g''" "Some accepting" accepting "refusing (ValueError ''proxy'')" "''m''"]
  by (simp add: truthy_def accepting_def refusing_def)

text \<open>
  Counterexample to C4 as stated. A key variable that is set, but to the empty string,
  selects no adapter, although the primary library is importable and both constructors
  would build a client. And with the secondary key set to \<^verbatim>\<open>"m"\<close>, a vendor
  constructor that raises makes the helper raise instead of returning.
\<close>

theorem selection_empty_key_counterexample:
  "map_of [(''GEMINI_API_KEY'', [])] ''GEMINI_API_KEY'' = Some [] \<and>
   get_default_client (map_of [(''GEMINI_API_KEY'', [])]) (Some accepting) accepting =
     Inr (None, False) \<and>
   map_of [(''MISTRAL_API_KEY'', [])] ''MISTRAL_API_KEY'' = Some [] \<and>
   get_default_client (map_of [(''MISTRAL_API_KEY'', [])]) (Some accepting) accepting =
     Inr (None, False) \<and>
   map_of [(''MISTRAL_API_KEY'', ''m'')] ''MISTRAL_API_KEY'' = Some ''m'' \<and>
   get_default_client (map_of [(''MISTRAL_API_KEY'', ''m'')]) (Some accepting)
     (refusing (ValueError ''proxy'')) = Inl (ValueError ''proxy'')"
  by (simp add: get_default_client_def MistralClient_init_def truthy_def refusing_def Let_def)

section \<open>Malformed chunks\<close>

lemma gemini_fragment_text:
  "gemini_text c = Inr (Some t) \<Longrightarrow> t \<noteq> [] \<Longrightarrow> gemini_fragment c = [t]"
  "gemini_text c = Inr (Some []) \<Longrightarrow> gemini_fragment c = []"
  "gemini_text c = Inr None \<Longrightarrow> gemini_fragment c = []"
  "gemini_text c = Inl e \<Longrightarrow> gemini_fragment c = []"
  by (simp_all add: gemini_fragment_def)

lemma mistral_events_content:
  "mistral_content m = Inr (Some v) \<Longrightarrow>
     mistral_events m = [Recv m, PrintReceived m, PrintContent v, Yield v]"
  "mistral_content m = Inl e \<Longrightarrow> mistral_events m = [Recv m, PrintReceived m, PrintError e]"
  by (simp_all add: mistral_events_def)

text \<open>
  Claim C5, amended. On each adapter, for every stream the vendor delivers: every chunk
  is consumed, however many extractions fail, and the generator ends with an exception
  only if the vendor's stream does or, on the Mistral adapter, if the final join fails
  on a content that is not a string. Where the stream contains a chunk carrying \<open>a\<close>,
  then a chunk on which the extraction raises, then a chunk carrying \<open>b\<close> (on the
  Gemini adapter non-empty texts, on the Mistral adapter any contents but
  \<^verbatim>\<open>None\<close>), the run consumes the three in turn, yields \<open>a\<close> and then \<open>b\<close>, and
  yields nothing for the chunk between them.
\<close>

theorem malformed_chunk_is_skipped:
  "(api (gemini_request_of self P C g) = Inr (cs, fin) \<longrightarrow>
      received (trace (gemini_stream self api lg P C g)) = cs \<and>
      raised (gemini_stream self api lg P C g) = fin) \<and>
   (api (gemini_request_of self P C g) = Inr (xs @ c1 # bad # c2 # ys, fin) \<and>
    gemini_text c1 = Inr (Some a) \<and> a \<noteq> [] \<and> gemini_text bad = Inl e \<and>
    gemini_text c2 = Inr (Some b) \<and> b \<noteq> [] \<longrightarrow>
      (\<exists>pre post.
         trace (gemini_stream self api lg P C g) =
           pre @ [Recv c1, Yield a, Recv bad, Recv c2, Yield b] @ post \<and>
         received pre = xs \<and> received post = ys)) \<and>
   (mapi (mistral_request_of P C) = Inr (ms, mfin) \<longrightarrow>
      received (trace (mistral_stream mself mapi lg P C g)) = ms \<and>
      raised (mistral_stream mself mapi lg P C g) =
        (case mfin of
           Some err \<Rightarrow> Some err
         | None \<Rightarrow>
             (case str_join (collected (mistral_stream mself mapi lg P C g)) of
                Inl err \<Rightarrow> Some err
              | Inr s \<Rightarrow> None))) \<and>
   (mapi (mistral_request_of P C) = Inr (mxs @ m1 # mbad # m2 # mys, mfin) \<and>
    mistral_content m1 = Inr (Some va) \<and> mistral_content mbad = Inl ve \<and>
    mistral_content m2 = Inr (Some vb) \<longrightarrow>
      (\<exists>pre post.
         trace (mistral_stream mself mapi lg P C g) =
           pre @ [Recv m1, PrintReceived m1, PrintContent va, Yield va,
                  Recv mbad, PrintReceived mbad, PrintError ve,
                  Recv m2, PrintReceived m2, PrintContent vb, Yield vb] @ post \<and>
         received pre = mxs \<and> received post = mys))"
proof (intro conjI impI)
  assume opened: "api (gemini_request_of self P C g) = Inr (cs, fin)"
  show "received (trace (gemini_stream self api lg P C g)) = cs"
    by (simp add: gemini_stream_opened [where api = api, OF opened])
  show "raised (gemini_stream self api lg P C g) = fin"
    by (simp add: gemini_stream_opened [where api = api, OF opened])
next
  assume h: "api (gemini_request_of self P C g) = Inr (xs @ c1 # bad # c2 # ys, fin) \<and>
    gemini_text c1 = Inr (Some a) \<and> a \<noteq> [] \<and> gemini_text bad = Inl e \<and>
    gemini_text c2 = Inr (Some b) \<and> b \<noteq> []"
  then have opened: "api (gemini_request_of self P C g) = Inr (xs @ c1 # bad # c2 # ys, fin)"
    and ev: "gemini_events c1 = [Recv c1, Yield a]" "gemini_events bad = [Recv bad]"
      "gemini_events c2 = [Recv c2, Yield b]"
    by (simp_all add: gemini_events_def gemini_fragment_text)
  let ?pre = "info lg ''LLM Prompt: %s'' [user_content P C] @
              [Submit (gemini_request_of self P C g)] @ concat (map gemini_events xs)"
  let ?post = "concat (map gemini_events ys) @
              (if fin = None \<and> concat (map gemini_fragment (xs @ c1 # bad # c2 # ys)) \<noteq> []
               then info lg ''LLM Response: %s''
                      [concat (concat (map gemini_fragment (xs @ c1 # bad # c2 # ys)))]
               else [])"
  have "trace (gemini_stream self api lg P C g) =
          ?pre @ [Recv c1, Yield a, Recv bad, Recv c2, Yield b] @ ?post"
    by (simp add: gemini_stream_opened [where api = api, OF opened] ev)
  moreover have "received ?pre = xs" by simp
  moreover have "received ?post = ys" by simp
  ultimately show "\<exists>pre post.
         trace (gemini_stream self api lg P C g) =
           pre @ [Recv c1, Yield a, Recv bad, Recv c2, Yield b] @ post \<and>
         received pre = xs \<and> received post = ys"
    by blast
next
  assume opened: "mapi (mistral_request_of P C) = Inr (ms, mfin)"
  show "received (trace (mistral_stream mself mapi lg P C g)) = ms"
    by (simp add: mistral_stream_opened [where api = mapi, OF opened] split: sum.splits)
  show "raised (mistral_stream mself mapi lg P C g) =
        (case mfin of
           Some err \<Rightarrow> Some err
         | None \<Rightarrow>
             (case str_join (collected (mistral_stream mself mapi lg P C g)) of
                Inl err \<Rightarrow> Some err
              | Inr s \<Rightarrow> None))"
  proof -
    have co: "collected (mistral_stream mself mapi lg P C g) = concat (map mistral_fragment ms)"
      by (simp add: mistral_stream_opened [where api = mapi, OF opened])
    have "raised (mistral_stream mself mapi lg P C g) =
          (case mfin of
             Some err \<Rightarrow> Some err
           | None \<Rightarrow>
               (case str_join (concat (map mistral_fragment ms)) of
                  Inl err \<Rightarrow> Some err
                | Inr s \<Rightarrow> None))"
      by (simp add: mistral_stream_opened [where api = mapi, OF opened])
    then show ?thesis by (simp only: co)
  qed
next
  assume h: "mapi (mistral_request_of P C) = Inr (mxs @ m1 # mbad # m2 # mys, mfin) \<and>
    mistral_content m1 = Inr (Some va) \<and> mistral_content mbad = Inl ve \<and>
    mistral_content m2 = Inr (Some vb)"
  then have opened: "mapi (mistral_request_of P C) = Inr (mxs @ m1 # mbad # m2 # mys, mfin)"
    and ev: "mistral_events m1 = [Recv m1, PrintReceived m1, PrintContent va, Yield va]"
      "mistral_events mbad = [Recv mbad, PrintReceived mbad, PrintError ve]"
      "mistral_events m2 = [Recv m2, PrintReceived m2, PrintContent vb, Yield vb]"
    by (simp_all add: mistral_events_content)
  let ?frs = "concat (map mistral_fragment (mxs @ m1 # mbad # m2 # mys))"
  let ?pre = "[Submit (mistral_request_of P C)] @ info lg ''LLM data has run'' [] @
              concat (map mistral_events mxs)"
  let ?post = "concat (map mistral_events mys) @
              (case str_join ?frs of
                 Inl err \<Rightarrow> []
               | Inr s \<Rightarrow>
                   if mfin = None
                   then (if ?frs \<noteq> [] then info lg ''LLM Response: %s'' [s] else []) @
                        [Yield (Text s)]
                   else [])"
  have "trace (mistral_stream mself mapi lg P C g) =
          ?pre @ [Recv m1, PrintReceived m1, PrintContent va, Yield va,
                  Recv mbad, PrintReceived mbad, PrintError ve,
                  Recv m2, PrintReceived m2, PrintContent vb, Yield vb] @ ?post"
    by (simp add: mistral_stream_opened [where api = mapi, OF opened] ev)
  moreover have "received ?pre = mxs" by simp
  moreover have "received ?post = mys" by (simp split: sum.splits)
  ultimately show "\<exists>pre post.
         trace (mistral_stream mself mapi lg P C g) =
           pre @ [Recv m1, PrintReceived m1, PrintContent va, Yield va,
                  Recv mbad, PrintReceived mbad, PrintError ve,
                  Recv m2, PrintReceived m2, PrintContent vb, Yield vb] @ post \<and>
         received pre = mxs \<and> received post = mys"
    by blast
qed

text \<open>
  Witness for the amended C5: on both adapters the stream malformed, \<^verbatim>\<open>"Hel"\<close>,
  malformed, \<^verbatim>\<open>"lo"\<close>, malformed.
\<close>

theorem malformed_chunk_is_skipped_witness:
  "received (trace (gemini_stream sample_gemini (simulated gemini_sample_chunks)
      logger ''Say hello'' [] None)) = gemini_sample_chunks \<and>
   raised (gemini_stream sample_gemini (simulated gemini_sample_chunks)
      logger ''Say hello'' [] None) = None \<and>
   (\<exists>pre post.
      trace (gemini_stream sample_gemini (simulated gemini_sample_chunks)
        logger ''Say hello'' [] None) =
        pre @ [Recv (gemini_chunk_of ''Hel''), Yield ''Hel'', Recv gemini_malformed,
               Recv (gemini_chunk_of ''lo''), Yield ''lo''] @ post \<and>
      received pre = [gemini_malformed] \<and> received post = [gemini_malformed]) \<and>
   received (trace (mistral_stream sample_mistral (simulated mistral_sample_chunks)
      logger ''Say hello'' [] None)) = mistral_sample_chunks \<and>
   raised (mistral_stream sample_mistral (simulated mistral_sample_chunks)
      logger ''Say hello'' [] None) = None \<and>
   (\<exists>pre post.
      trace (mistral_stream sample_mistral (simulated mistral_sample_chunks)
        logger ''Say hello'' [] None) =
        pre @ [Recv (mistral_chunk_of ''Hel''), PrintReceived (mistral_chunk_of ''Hel''),
               PrintContent (Text ''Hel''), Yield (Text ''Hel''),
               Recv mistral_malformed, PrintReceived mistral_malformed,
               PrintError AttributeError,
               Recv (mistral_chunk_of ''lo''), PrintReceived (mistral_chunk_of ''lo''),
               PrintContent (Text ''lo''), Yield (Text ''lo'')] @ post \<and>
      received pre = [mistral_malformed] \<and> received post = [mistral_malformed])"
proof -
  have texts:
    "gemini_text (gemini_chunk_of ''Hel'') = Inr (Some ''Hel'')"
    "gemini_text gemini_malformed = Inl IndexError"
    "gemini_text (gemini_chunk_of ''lo'') = Inr (Some ''lo'')"
    by (simp_all add: gemini_text_def gemini_chunk_of_def gemini_malformed_def item0_def)
  have contents:
    "mistral_content (mistral_chunk_of ''Hel'') = Inr (Some (Text ''Hel''))"
    "mistral_content mistral_malformed = Inl AttributeError"
    "mistral_content (mistral_chunk_of ''lo'') = Inr (Some (Text ''lo''))"
    by (simp_all add: mistral_content_def mistral_chunk_of_def mistral_chunk_with_def
          mistral_malformed_def item0_def)
  have collected:
    "collected (mistral_stream sample_mistral (simulated mistral_sample_chunks)
       logger ''Say hello'' [] None) = [Text ''Hel'', Text ''lo'']"
  proof -
    have opened: "simulated mistral_sample_chunks (mistral_request_of ''Say hello'' []) =
                  Inr (mistral_sample_chunks, None)"
      by (simp add: simulated_def)
    show ?thesis
      unfolding mistral_stream_opened [where api = "simulated mistral_sample_chunks", OF opened]
      by (simp add: mistral_sample_chunks_def mistral_fragment_def contents)
  qed
  from collected malformed_chunk_is_skipped
         [where api = "simulated gemini_sample_chunks" and self = sample_gemini
            and P = "''Say hello''" and C = "[]" and g = None and lg = logger
            and cs = gemini_sample_chunks and fin = None
            and xs = "[gemini_malformed]" and ys = "[gemini_malformed]"
            and ?c1.0 = "gemini_chunk_of ''Hel''" and a = "''Hel''"
            and bad = gemini_malformed and e = IndexError
            and ?c2.0 = "gemini_chunk_of ''lo''" and b = "''lo''"
            and mapi = "simulated mistral_sample_chunks" and mself = sample_mistral
            and ms = mistral_sample_chunks and mfin = None
            and mxs = "[mistral_malformed]" and mys = "[mistral_malformed]"
            and ?m1.0 = "mistral_chunk_of ''Hel''" and va = "Text ''Hel''"
            and mbad = mistral_malformed and ve = AttributeError
            and ?m2.0 = "mistral_chunk_of ''lo''" and vb = "Text ''lo''"]
  show ?thesis
    by (simp add: simulated_def gemini_sample_chunks_def mistral_sample_chunks_def
          texts contents)
qed

text \<open>
  Counterexample to C5 as stated: on the Gemini adapter the first chunk is well formed,
  the extraction succeeds with the empty string, and the guard of line 92 drops it, so
  the malformed chunk is not the only one skipped and only one fragment is yielded.
\<close>

theorem empty_text_chunk_counterexample:
  "gemini_text (gemini_chunk_of []) = Inr (Some []) \<and>
   gemini_text gemini_malformed = Inl IndexError \<and>
   gemini_text (gemini_chunk_of ''b'') = Inr (Some ''b'') \<and>
   yielded (trace (gemini_stream sample_gemini
      (simulated [gemini_chunk_of [], gemini_malformed, gemini_chunk_of ''b''])
      logger ''p'' [] None)) = [''b'']"
  by (simp add: run_defs logger_defs)

section \<open>Incremental delivery on the Gemini adapter\<close>

lemma gemini_fragment_nonempty: "[] \<notin> set (gemini_fragment c)"
  by (simp add: gemini_fragment_def split: sum.splits option.splits)

lemma gemini_collected_nonempty: "[] \<notin> set (collected (gemini_stream self api lg P C g))"
proof (cases "api (gemini_request_of self P C g)" rule: vendor_cases)
  case (failed e)
  show ?thesis by (simp add: gemini_stream_failed [where api = api, OF failed])
next
  case (opened cs fin)
  show ?thesis
    by (simp add: gemini_stream_opened [where api = api, OF opened] gemini_fragment_nonempty)
qed

lemma gemini_yielded_collected:
  "yielded (trace (gemini_stream self api lg P C g)) = collected (gemini_stream self api lg P C g)"
proof (cases "api (gemini_request_of self P C g)" rule: vendor_cases)
  case (failed e)
  show ?thesis by (simp add: gemini_stream_failed [where api = api, OF failed])
next
  case (opened cs fin)
  show ?thesis by (simp add: gemini_stream_opened [where api = api, OF opened])
qed

text \<open>
  Claim C7, amended. Whenever the extraction on a chunk of a Gemini stream gives a
  non-empty text, the run yields that text right after taking the chunk, before any later
  chunk is taken, and the text is accumulated at its place among the yielded fragments.
  The empty string is never yielded and never accumulated.
\<close>

theorem gemini_fragment_yielded_at_once:
  "(api (gemini_request_of self P C g) = Inr (xs @ c # ys, fin) \<and>
    gemini_text c = Inr (Some t) \<and> t \<noteq> [] \<longrightarrow>
      (\<exists>pre post.
         trace (gemini_stream self api lg P C g) = pre @ [Recv c, Yield t] @ post \<and>
         received pre = xs \<and> received post = ys \<and>
         collected (gemini_stream self api lg P C g) = yielded pre @ [t] @ yielded post)) \<and>
   [] \<notin> set (yielded (trace (gemini_stream self api lg P C g))) \<and>
   [] \<notin> set (collected (gemini_stream self api lg P C g))"
proof (intro conjI impI)
  assume h: "api (gemini_request_of self P C g) = Inr (xs @ c # ys, fin) \<and>
    gemini_text c = Inr (Some t) \<and> t \<noteq> []"
  then have opened: "api (gemini_request_of self P C g) = Inr (xs @ c # ys, fin)"
    and frag: "gemini_fragment c = [t]"
    by (simp_all add: gemini_fragment_text)
  let ?pre = "info lg ''LLM Prompt: %s'' [user_content P C] @
              [Submit (gemini_request_of self P C g)] @ concat (map gemini_events xs)"
  let ?post = "concat (map gemini_events ys) @
              (if fin = None \<and> concat (map gemini_fragment (xs @ c # ys)) \<noteq> []
               then info lg ''LLM Response: %s''
                      [concat (concat (map gemini_fragment (xs @ c # ys)))]
               else [])"
  from frag have ev: "gemini_events c = [Recv c, Yield t]"
    by (simp add: gemini_events_def)
  have "trace (gemini_stream self api lg P C g) = ?pre @ [Recv c, Yield t] @ ?post"
    by (simp add: gemini_stream_opened [where api = api, OF opened] ev)
  moreover have "received ?pre = xs" by simp
  moreover have "received ?post = ys" by simp
  moreover have "collected (gemini_stream self api lg P C g) =
                 yielded ?pre @ [t] @ yielded ?post"
    by (simp add: gemini_stream_opened [where api = api, OF opened] frag)
  ultimately show "\<exists>pre post.
         trace (gemini_stream self api lg P C g) = pre @ [Recv c, Yield t] @ post \<and>
         received pre = xs \<and> received post = ys \<and>
         collected (gemini_stream self api lg P C g) = yielded pre @ [t] @ yielded post"
    by blast
next
  show "[] \<notin> set (yielded (trace (gemini_stream self api lg P C g)))"
    by (simp only: gemini_yielded_collected gemini_collected_nonempty not_False_eq_True)
next
  show "[] \<notin> set (collected (gemini_stream self api lg P C g))"
    by (rule gemini_collected_nonempty)
qed

text \<open>
  Witness for the amended C7: the chunks \<^verbatim>\<open>"Hel"\<close>, empty text, \<^verbatim>\<open>"lo"\<close>; the
  third is yielded at once, the second never.
\<close>

theorem gemini_fragment_yielded_at_once_witness:
  "(\<exists>pre post.
     trace (gemini_stream sample_gemini
        (simulated [gemini_chunk_of ''Hel'', gemini_chunk_of [], gemini_chunk_of ''lo''])
        logger ''Say hello'' [] None) =
       pre @ [Recv (gemini_chunk_of ''lo''), Yield ''lo''] @ post \<and>
     received pre = [gemini_chunk_of ''Hel'', gemini_chunk_of []] \<and> received post = [] \<and>
     collected (gemini_stream sample_gemini
        (simulated [gemini_chunk_of ''Hel'', gemini_chunk_of [], gemini_chunk_of ''lo''])
        logger ''Say hello'' [] None) =
       yielded pre @ [''lo''] @ yielded post) \<and>
   [] \<notin> set (yielded (trace (gemini_stream sample_gemini
        (simulated [gemini_chunk_of ''Hel'', gemini_chunk_of [], gemini_chunk_of ''lo''])
        logger ''Say hello'' [] None)))"
  using gemini_fragment_yielded_at_once
    [where api = "simulated [gemini_chunk_of ''Hel'', gemini_chunk_of [], gemini_chunk_of ''lo'']"
       and self = sample_gemini and P = "''Say hello''" and C = "[]" and g = None
       and xs = "[gemini_chunk_of ''Hel'', gemini_chunk_of []]" and c = "gemini_chunk_of ''lo''"
       and ys = "[]" and fin = None and t = "''lo''" and lg = logger]
  by (simp add: simulated_def gemini_text_def item0_def gemini_chunk_of_def)

text \<open>
  Counterexample to C7 as stated: the extraction on the only chunk succeeds with the
  empty string; the chunk is taken, and nothing is yielded or accumulated.
\<close>

theorem empty_fragment_withheld_counterexample:
  "gemini_text (gemini_chunk_of []) = Inr (Some []) \<and>
   received (trace (gemini_stream sample_gemini (simulated [gemini_chunk_of []])
      logger ''p'' [] None)) = [gemini_chunk_of []] \<and>
   yielded (trace (gemini_stream sample_gemini (simulated [gemini_chunk_of []])
      logger ''p'' [] None)) = [] \<and>
   collected (gemini_stream sample_gemini (simulated [gemini_chunk_of []])
      logger ''p'' [] None) = []"
  by (simp add: run_defs logger_defs)

end
